theory Spec2Isabelle
  imports Main
begin

section \<open>Pipeline verbs of the notebook \<open>pydatapipelines.ipynb\<close>\<close>

text \<open>
  The notebook defines a class \<open>PipeVerb\<close>, the decorators \<open>pipeverb\<close> and
  \<open>singledispatch_pipeverb\<close>, and the class patcher \<open>make_pipesource\<close>. The model below
  follows the Python: objects with identity live in a store, classes are entries of a class
  table that \<open>make_pipesource\<close> updates, functions are named and their bodies are looked up
  in an environment, and every \<open>raise\<close> is a value \<open>Inl e\<close>.
\<close>

subsection \<open>Values, callables, exceptions\<close>

text \<open>
  A class is named as \<open>type.__repr__\<close> prints it: its qualified name with the module, or
  the bare name for a built-in type. Functions are named by their definitions.
\<close>

type_synonym cname = string
type_synonym fname = string

text \<open>
  A callable is a plain function (named; its body is in the environment), the wrapper that
  \<open>functools.singledispatch\<close> returns (a reference to its registry in the store), or the
  function \<open>decorated\<close> that \<open>pipeverb\<close> returns: it closes over \<open>func\<close> and may carry the
  attribute \<open>register\<close> (the registry that this \<open>register\<close> writes to).
\<close>

datatype callable =
    Fn fname
  | SD nat
  | Verb callable "nat option"

text \<open>
  Values. A list is a reference into the store of list objects; an instance of any other
  class carries its class and an identity. A \<open>PipeVerb\<close> instance holds its three
  attributes \<open>pipe_func\<close>, \<open>args\<close>, \<open>kwargs\<close>, which nothing in the notebook assigns after
  \<open>__init__\<close>.
\<close>

datatype val =
    VNone
  | VNotImplemented
  | VInt int
  | VStr string
  | VList nat
  | VObj cname nat
  | VPipeVerb callable "val list" "(string \<times> val) list"

type_synonym kwargs = "(string \<times> val) list"

text \<open>Only \<open>NotImplementedError\<close> carries its message; the other messages are not modelled.\<close>

datatype exn =
    NotImplementedError string
  | TypeError
  | IndexError
  | AttributeError
  | RecursionError
  | RuntimeError
  | ValueError
  | OtherError string

fun type_of :: "val \<Rightarrow> cname" where
  "type_of VNone = ''NoneType''"
| "type_of VNotImplemented = ''NotImplementedType''"
| "type_of (VInt _) = ''int''"
| "type_of (VStr _) = ''str''"
| "type_of (VList _) = ''list''"
| "type_of (VObj c _) = c"
| "type_of (VPipeVerb _ _ _) = ''__main__.PipeVerb''"

subsection \<open>Classes and the store\<close>

text \<open>
  What a class attribute \<open>__rshift__\<close> or \<open>__orig_rshift__\<close> can hold: a function defined
  elsewhere, with the value of its attribute \<open>pipeoperator\<close> (\<open>False\<close> when it has none), or
  the closure \<open>__rshift__\<close> that \<open>make_pipesource\<close> creates, whose \<open>pipeoperator\<close> attribute
  is set to \<open>True\<close> right after its creation.
\<close>

datatype pymethod =
    UserFn fname bool
  | PipeOp

fun pipeoperator :: "pymethod \<Rightarrow> bool" where
  "pipeoperator (UserFn _ b) = b"
| "pipeoperator PipeOp = True"

text \<open>
  A class: the rest of its resolution order (the MRO is the class itself followed
  by \<open>ancestors\<close>), whether it is a built-in type (whose attributes cannot be assigned),
  the two entries of its own dictionary that the notebook reads and writes, and what its
  metaclass prints for it when that is not the \<open>__repr__\<close> of \<open>type\<close> (\<open>EnumMeta\<close> prints
  \<open><enum 'Color'>\<close>).
\<close>

record pyclass =
  ancestors :: "cname list"
  builtin :: bool
  rshift_attr :: "pymethod option"
  orig_rshift_attr :: "pymethod option"
  class_repr :: "string option"

text \<open>
  The store: list objects by address, the class table, and the registries of the
  single-dispatch functions, each with its allocation counter. Two components describe
  abstract base classes, which Python keeps outside the MRO: \<open>virtual_bases c\<close> lists the
  abstract base classes, among those the program uses as registration keys, that
  \<open>issubclass\<close> accepts \<open>c\<close> for although they are not in its MRO (by \<open>ABC.register\<close> or
  \<open>__subclasshook__\<close>); \<open>abc_mro c ts\<close> is the linearisation that \<open>functools\<close> composes
  for \<open>c\<close> and such classes \<open>ts\<close> from the bases and subclasses of the abstract base
  classes, or the \<open>RuntimeError\<close> it ends with. The record is extensible: the state of
  other libraries (pandas) is the extension.
\<close>

record world =
  lists :: "nat \<Rightarrow> val list"
  next_list :: nat
  classes :: "cname \<Rightarrow> pyclass"
  dispatchers :: "nat \<Rightarrow> (cname \<rightharpoonup> fname)"
  next_sd :: nat
  virtual_bases :: "cname \<Rightarrow> cname list"
  abc_mro :: "cname \<Rightarrow> cname list \<Rightarrow> exn + cname list"

type_synonym 'a res = "(exn + val) \<times> 'a world_scheme"
type_synonym 'a env = "fname \<Rightarrow> val list \<Rightarrow> kwargs \<Rightarrow> 'a world_scheme \<Rightarrow> 'a res"

definition mro :: "'a world_scheme \<Rightarrow> cname \<Rightarrow> cname list" where
  "mro w c = c # ancestors (classes w c)"

text \<open>
  \<open>str(cls)\<close> of a class, as \<open>"%s" % type(input)\<close> prints it: the \<open>__repr__\<close> of its
  metaclass, which for \<open>type\<close> is \<open><class 'name'>\<close>.
\<close>

definition str_of_type :: "'a world_scheme \<Rightarrow> cname \<Rightarrow> string" where
  "str_of_type w c =
     (case class_repr (classes w c) of
        None \<Rightarrow> ''<class '' @ [CHR 0x27] @ c @ [CHR 0x27] @ ''>''
      | Some s \<Rightarrow> s)"

text \<open>Attribute lookup on a class: the first class of the MRO whose dictionary has it.\<close>

fun lookup_attr :: "(cname \<Rightarrow> pyclass) \<Rightarrow> (pyclass \<Rightarrow> 'b option) \<Rightarrow> cname list \<Rightarrow> 'b option" where
  "lookup_attr ct sel [] = None"
| "lookup_attr ct sel (c # cs) =
     (case sel (ct c) of Some m \<Rightarrow> Some m | None \<Rightarrow> lookup_attr ct sel cs)"

definition lookup_rshift :: "'a world_scheme \<Rightarrow> cname \<Rightarrow> pymethod option" where
  "lookup_rshift w c = lookup_attr (classes w) rshift_attr (mro w c)"

definition lookup_orig_rshift :: "'a world_scheme \<Rightarrow> cname \<Rightarrow> pymethod option" where
  "lookup_orig_rshift w c = lookup_attr (classes w) orig_rshift_attr (mro w c)"

subsection \<open>\<open>functools.singledispatch\<close>\<close>

text \<open>
  \<open>singledispatch(func)\<close> creates a registry holding \<open>func\<close> for \<open>object\<close>;
  \<open>register(cls)\<close> adds an entry.
\<close>

definition singledispatch :: "fname \<Rightarrow> 'a world_scheme \<Rightarrow> callable \<times> 'a world_scheme" where
  "singledispatch func w =
     (SD (next_sd w),
      w\<lparr>dispatchers := (dispatchers w)(next_sd w := [''object'' \<mapsto> func]),
        next_sd := Suc (next_sd w)\<rparr>)"

definition register :: "nat \<Rightarrow> cname \<Rightarrow> fname \<Rightarrow> 'a world_scheme \<Rightarrow> 'a world_scheme" where
  "register d cls func w =
     w\<lparr>dispatchers := (dispatchers w)(d := (dispatchers w d)(cls \<mapsto> func))\<rparr>"

text \<open>
  \<open>dispatch(cls)\<close> of \<open>functools\<close> returns \<open>registry[cls]\<close> when the class itself is a
  key. Otherwise \<open>_find_impl\<close> composes a linearisation of \<open>cls\<close> with the registered
  classes that accept \<open>cls\<close> from outside its MRO (\<open>related\<close>) and walks it:
  \<^verbatim>\<open>
  mro = _compose_mro(cls, registry.keys())
  match = None
  for t in mro:
      if match is not None:
          if (t in registry and t not in cls.__mro__
                            and match not in cls.__mro__
                            and not issubclass(match, t)):
              raise RuntimeError("Ambiguous dispatch")
          break
      if t in registry:
          match = t
  return registry.get(match)
  \<close>
  Without related classes the composed linearisation is the C3 linearisation of \<open>cls\<close>
  from its bases, that is its MRO (a metaclass with an \<open>mro\<close> method of its own is not
  modelled); with them it is \<open>abc_mro\<close>. The cache of \<open>dispatch\<close> is not modelled.
\<close>

definition issubclass :: "'a world_scheme \<Rightarrow> cname \<Rightarrow> cname \<Rightarrow> bool" where
  "issubclass w c t = (t \<in> set (mro w c) \<or> t \<in> set (virtual_bases w c))"

definition related :: "'a world_scheme \<Rightarrow> nat \<Rightarrow> cname \<Rightarrow> cname list" where
  "related w d cls =
     filter (\<lambda>t. dispatchers w d t \<noteq> None \<and> t \<notin> set (mro w cls)) (virtual_bases w cls)"

definition compose_mro :: "'a world_scheme \<Rightarrow> nat \<Rightarrow> cname \<Rightarrow> exn + cname list" where
  "compose_mro w d cls =
     (case related w d cls of
        [] \<Rightarrow> Inr (mro w cls)
      | t # ts \<Rightarrow> abc_mro w cls (t # ts))"

fun find_match ::
  "'a world_scheme \<Rightarrow> nat \<Rightarrow> cname \<Rightarrow> cname option \<Rightarrow> cname list \<Rightarrow> exn + cname option" where
  "find_match w d cls match [] = Inr match"
| "find_match w d cls None (t # ts) =
     (if dispatchers w d t \<noteq> None then find_match w d cls (Some t) ts
      else find_match w d cls None ts)"
| "find_match w d cls (Some m) (t # ts) =
     (if dispatchers w d t \<noteq> None \<and> t \<notin> set (mro w cls) \<and> m \<notin> set (mro w cls)
         \<and> \<not> issubclass w m t
      then Inl RuntimeError
      else Inr (Some m))"

definition find_impl :: "'a world_scheme \<Rightarrow> nat \<Rightarrow> cname \<Rightarrow> exn + fname option" where
  "find_impl w d cls =
     (case compose_mro w d cls of
        Inl e \<Rightarrow> Inl e
      | Inr ts \<Rightarrow>
          (case find_match w d cls None ts of
             Inl e \<Rightarrow> Inl e
           | Inr None \<Rightarrow> Inr None
           | Inr (Some t) \<Rightarrow> Inr (dispatchers w d t)))"

definition dispatch :: "'a world_scheme \<Rightarrow> nat \<Rightarrow> cname \<Rightarrow> exn + fname option" where
  "dispatch w d cls =
     (case dispatchers w d cls of
        Some f \<Rightarrow> Inr (Some f)
      | None \<Rightarrow> find_impl w d cls)"

subsection \<open>\<open>PipeVerb\<close> and \<open>pipeverb\<close>\<close>

text \<open>
  \<open>PipeVerb(func, *args, **kwargs)\<close> binds \<open>__init__(self, func, *args, **kwargs)\<close>: a
  keyword named \<open>self\<close> or \<open>func\<close> collides with the two positional parameters, and the
  call raises \<open>TypeError\<close>.
\<close>

definition PipeVerb_init :: "callable \<Rightarrow> val list \<Rightarrow> kwargs \<Rightarrow> exn + val" where
  "PipeVerb_init func args kw =
     (if ''self'' \<in> set (map fst kw) \<or> ''func'' \<in> set (map fst kw) then Inl TypeError
      else Inr (VPipeVerb func args kw))"

text \<open>
  Calling a callable with positional and keyword arguments. The wrapper of
  \<open>singledispatch\<close> is \<open>dispatch(args[0].__class__)(*args, **kw)\<close>: without a positional
  argument Python 3.5, the version of the notebook, fails on \<open>args[0]\<close> with
  \<open>IndexError\<close>, and a dispatch that finds no implementation leaves \<open>None\<close> to be called,
  a \<open>TypeError\<close>.
\<close>

fun call :: "'a env \<Rightarrow> callable \<Rightarrow> val list \<Rightarrow> kwargs \<Rightarrow> 'a world_scheme \<Rightarrow> 'a res" where
  "call \<Gamma> (Fn f) args kw w = \<Gamma> f args kw w"
| "call \<Gamma> (SD d) args kw w =
     (case args of
        [] \<Rightarrow> (Inl IndexError, w)
      | a # _ \<Rightarrow>
          (case dispatch w d (type_of a) of
             Inl e \<Rightarrow> (Inl e, w)
           | Inr None \<Rightarrow> (Inl TypeError, w)
           | Inr (Some f) \<Rightarrow> \<Gamma> f args kw w))"
| "call \<Gamma> (Verb func r) args kw w = (PipeVerb_init func args kw, w)"

text \<open>\<open>PipeVerb.__rrshift__(self, input)\<close>, on the attributes of \<open>self\<close>.\<close>

definition PipeVerb_rrshift ::
  "'a env \<Rightarrow> callable \<Rightarrow> val list \<Rightarrow> kwargs \<Rightarrow> val \<Rightarrow> 'a world_scheme \<Rightarrow> 'a res" where
  "PipeVerb_rrshift \<Gamma> pipe_func args kw input w = call \<Gamma> pipe_func (input # args) kw w"

fun register_attr :: "callable \<Rightarrow> nat option" where
  "register_attr (Fn _) = None"
| "register_attr (SD d) = Some d"
| "register_attr (Verb _ r) = r"

text \<open>
  \<open>pipeverb(func)\<close>: the function \<open>decorated\<close>, with \<open>func.register\<close> as its \<open>register\<close>
  when \<open>func\<close> has one.
\<close>

definition pipeverb :: "callable \<Rightarrow> callable" where
  "pipeverb func = Verb func (register_attr func)"

definition singledispatch_pipeverb :: "fname \<Rightarrow> 'a world_scheme \<Rightarrow> callable \<times> 'a world_scheme" where
  "singledispatch_pipeverb func w =
     (case singledispatch func w of (sd, w') \<Rightarrow> (pipeverb sd, w'))"

subsection \<open>The operator \<open>>>\<close> and \<open>make_pipesource\<close>\<close>

text \<open>
  Calling what a class holds as \<open>__rshift__\<close> on \<open>self\<close> and \<open>other\<close>. For the closure of
  \<open>make_pipesource\<close>: \<open>isinstance(other, PipeVerb)\<close> selects \<open>other.__rrshift__(self)\<close>,
  anything else \<open>self.__orig_rshift__(other)\<close>, an attribute looked up on the class of
  \<open>self\<close>. Were that attribute the closure itself, the call would repeat without end.
  The instances of \<open>PipeVerb\<close> are the values \<open>VPipeVerb\<close>, which is what \<open>pipeverb\<close>
  builds; the notebook derives no class from \<open>PipeVerb\<close>, and instances of such a class
  are not among the values.
\<close>

definition call_method :: "'a env \<Rightarrow> pymethod \<Rightarrow> val \<Rightarrow> val \<Rightarrow> 'a world_scheme \<Rightarrow> 'a res" where
  "call_method \<Gamma> m self other w =
     (case m of
        UserFn f _ \<Rightarrow> \<Gamma> f [self, other] [] w
      | PipeOp \<Rightarrow>
          (case other of
             VPipeVerb pf args kw \<Rightarrow> PipeVerb_rrshift \<Gamma> pf args kw self w
           | _ \<Rightarrow>
               (case lookup_orig_rshift w (type_of self) of
                  None \<Rightarrow> (Inl AttributeError, w)
                | Some (UserFn f _) \<Rightarrow> \<Gamma> f [self, other] [] w
                | Some PipeOp \<Rightarrow> (Inl RecursionError, w))))"

text \<open>
  The reflected step of \<open>lhs >> rhs\<close>. \<open>PipeVerb\<close> is the only class here whose
  \<open>__rrshift__\<close> accepts a left operand of another class, and Python tries the reflected
  operation only when the operands are of different types. No result, or the result
  \<open>NotImplemented\<close>, is a \<open>TypeError\<close>. (Python tries the reflected operation first when
  the class of \<open>rhs\<close> derives from the class of \<open>lhs\<close>; \<open>PipeVerb\<close> derives from \<open>object\<close>
  only, which has no \<open>__rshift__\<close>, so the order makes no difference.)
\<close>

definition reflected :: "'a env \<Rightarrow> val \<Rightarrow> val \<Rightarrow> 'a world_scheme \<Rightarrow> 'a res" where
  "reflected \<Gamma> lhs rhs w =
     (case rhs of
        VPipeVerb pf args kw \<Rightarrow>
          (if type_of lhs = type_of rhs then (Inl TypeError, w)
           else (case PipeVerb_rrshift \<Gamma> pf args kw lhs w of
                   (r, w') \<Rightarrow>
                     if r = Inr VNotImplemented then (Inl TypeError, w') else (r, w')))
      | _ \<Rightarrow> (Inl TypeError, w))"

text \<open>
  \<open>lhs >> rhs\<close> with \<open>m\<close> as the \<open>__rshift__\<close> of the class of \<open>lhs\<close>: the result of \<open>m\<close>
  unless it is \<open>NotImplemented\<close>, then the reflected step.
\<close>

definition binop_with :: "'a env \<Rightarrow> pymethod option \<Rightarrow> val \<Rightarrow> val \<Rightarrow> 'a world_scheme \<Rightarrow> 'a res" where
  "binop_with \<Gamma> mo lhs rhs w =
     (case mo of
        None \<Rightarrow> reflected \<Gamma> lhs rhs w
      | Some m \<Rightarrow>
          (case call_method \<Gamma> m lhs rhs w of
             (r, w') \<Rightarrow>
               if r = Inr VNotImplemented then reflected \<Gamma> lhs rhs w' else (r, w')))"

definition rshift_op :: "'a env \<Rightarrow> val \<Rightarrow> val \<Rightarrow> 'a world_scheme \<Rightarrow> 'a res" where
  "rshift_op \<Gamma> lhs rhs w = binop_with \<Gamma> (lookup_rshift w (type_of lhs)) lhs rhs w"

text \<open>
  \<open>make_pipesource(cls)\<close>. \<open>hasattr\<close> and \<open>cls.__rshift__\<close> look the attribute up along the
  MRO; the two assignments write the dictionary of \<open>cls\<close> itself, which a built-in type
  refuses with \<open>TypeError\<close> at the first one.
\<close>

definition make_pipesource :: "cname \<Rightarrow> 'a world_scheme \<Rightarrow> 'a res" where
  "make_pipesource cls w =
     (case lookup_rshift w cls of
        None \<Rightarrow> (Inr VNone, w)
      | Some m \<Rightarrow>
          (if pipeoperator m then (Inr VNone, w)
           else if builtin (classes w cls) then (Inl TypeError, w)
           else (Inr VNone,
                 w\<lparr>classes := (classes w)
                      (cls := (classes w cls)\<lparr>rshift_attr := Some PipeOp,
                                              orig_rshift_attr := Some m\<rparr>)\<rparr>)))"

text \<open>
  The expression \<open>v >> verb(*args, **kw)\<close> with \<open>v\<close> and the arguments already evaluated:
  the call of the verb comes first, then the operator.
\<close>

definition pipe ::
  "'a env \<Rightarrow> val \<Rightarrow> callable \<Rightarrow> val list \<Rightarrow> kwargs \<Rightarrow> 'a world_scheme \<Rightarrow> 'a res" where
  "pipe \<Gamma> v verb args kw w =
     (case call \<Gamma> verb args kw w of
        (Inl e, w') \<Rightarrow> (Inl e, w')
      | (Inr pv, w') \<Rightarrow> rshift_op \<Gamma> v pv w')"

subsection \<open>The functions of the notebook\<close>

text \<open>
  Binding positional and keyword arguments to a parameter list without \<open>*args\<close> and
  \<open>**kwargs\<close>: too many positional arguments, an unknown keyword, or a keyword for a
  parameter already given by position raise \<open>TypeError\<close>. Defaults and missing required
  parameters are handled where the bound names are read.
\<close>

definition bind_params :: "string list \<Rightarrow> val list \<Rightarrow> kwargs \<Rightarrow> exn + (string \<rightharpoonup> val)" where
  "bind_params names args kw =
     (if length names < length args then Inl TypeError
      else if list_ex (\<lambda>k. k \<notin> set names) (map fst kw) then Inl TypeError
      else if list_ex (\<lambda>k. k \<in> set (take (length args) names)) (map fst kw) then Inl TypeError
      else Inr (map_of (zip names args @ kw)))"

definition new_list :: "val list \<Rightarrow> 'a world_scheme \<Rightarrow> val \<times> 'a world_scheme" where
  "new_list xs w =
     (VList (next_list w),
      w\<lparr>lists := (lists w)(next_list w := xs), next_list := Suc (next_list w)\<rparr>)"

text \<open>
  \<open>input + [x, ...]\<close>: the list display is a new list object; \<open>list.__add__\<close> returns a
  second new list and changes neither operand. An instance of another class decides by its
  own \<open>__add__\<close>, a function of the library \<open>lib\<close>; the remaining values have no \<open>+\<close> with a
  list.
\<close>

definition add_list_display :: "'a env \<Rightarrow> val \<Rightarrow> val list \<Rightarrow> 'a world_scheme \<Rightarrow> 'a res" where
  "add_list_display lib input xs w =
     (case new_list xs w of
        (tmp, w1) \<Rightarrow>
          (case input of
             VList a \<Rightarrow> (case new_list (lists w1 a @ xs) w1 of (r, w2) \<Rightarrow> (Inr r, w2))
           | VObj c i \<Rightarrow> lib ''__add__'' [input, tmp] [] w1
           | _ \<Rightarrow> (Inl TypeError, w1)))"

text \<open>The generic \<open>append_col(input, x = 1)\<close> of cell 3.\<close>

definition append_col :: "val list \<Rightarrow> kwargs \<Rightarrow> 'a world_scheme \<Rightarrow> 'a res" where
  "append_col args kw w =
     (case bind_params [''input'', ''x''] args kw of
        Inl e \<Rightarrow> (Inl e, w)
      | Inr b \<Rightarrow>
          (case b ''input'' of
             None \<Rightarrow> (Inl TypeError, w)
           | Some input \<Rightarrow>
               (Inl (NotImplementedError
                  (''append_col is not implemented for data of type ''
                     @ str_of_type w (type_of input))), w)))"

text \<open>
  \<open>append_col_df(input, x = 1)\<close> of cell 3, for \<open>pandas.DataFrame\<close>: \<open>input.copy()\<close>,
  then \<open>copy["X"] = x\<close>, both methods of pandas.
\<close>

definition append_col_df :: "'a env \<Rightarrow> val list \<Rightarrow> kwargs \<Rightarrow> 'a world_scheme \<Rightarrow> 'a res" where
  "append_col_df lib args kw w =
     (case bind_params [''input'', ''x''] args kw of
        Inl e \<Rightarrow> (Inl e, w)
      | Inr b \<Rightarrow>
          (case b ''input'' of
             None \<Rightarrow> (Inl TypeError, w)
           | Some input \<Rightarrow>
               (let x = (case b ''x'' of None \<Rightarrow> VInt 1 | Some v \<Rightarrow> v) in
                case lib ''copy'' [input] [] w of
                  (Inl e, w1) \<Rightarrow> (Inl e, w1)
                | (Inr copy, w1) \<Rightarrow>
                    (case lib ''__setitem__'' [copy, VStr ''X'', x] [] w1 of
                       (Inl e, w2) \<Rightarrow> (Inl e, w2)
                     | (Inr _, w2) \<Rightarrow> (Inr copy, w2)))))"

text \<open>
  The second \<open>append_col_df(input, x = 1)\<close>, of cell 5, registered for \<open>list\<close>:
  \<open>return input + [x]\<close>.
\<close>

definition append_col_df_list :: "'a env \<Rightarrow> val list \<Rightarrow> kwargs \<Rightarrow> 'a world_scheme \<Rightarrow> 'a res" where
  "append_col_df_list lib args kw w =
     (case bind_params [''input'', ''x''] args kw of
        Inl e \<Rightarrow> (Inl e, w)
      | Inr b \<Rightarrow>
          (case b ''input'' of
             None \<Rightarrow> (Inl TypeError, w)
           | Some input \<Rightarrow>
               (let x = (case b ''x'' of None \<Rightarrow> VInt 1 | Some v \<Rightarrow> v) in
                add_list_display lib input [x] w)))"

text \<open>Cell 7: \<open>groupby(input, columns)\<close> and \<open>summarize_mean(input)\<close> with their implementations.\<close>

definition groupby :: "val list \<Rightarrow> kwargs \<Rightarrow> 'a world_scheme \<Rightarrow> 'a res" where
  "groupby args kw w =
     (case bind_params [''input'', ''columns''] args kw of
        Inl e \<Rightarrow> (Inl e, w)
      | Inr b \<Rightarrow>
          (case (b ''input'', b ''columns'') of
             (Some input, Some columns) \<Rightarrow>
               (Inl (NotImplementedError
                  (''groupby is not implemented for data of type ''
                     @ str_of_type w (type_of input))), w)
           | _ \<Rightarrow> (Inl TypeError, w)))"

definition groupby_DataFrame :: "'a env \<Rightarrow> val list \<Rightarrow> kwargs \<Rightarrow> 'a world_scheme \<Rightarrow> 'a res" where
  "groupby_DataFrame lib args kw w =
     (case bind_params [''input'', ''columns''] args kw of
        Inl e \<Rightarrow> (Inl e, w)
      | Inr b \<Rightarrow>
          (case (b ''input'', b ''columns'') of
             (Some input, Some columns) \<Rightarrow> lib ''groupby'' [input, columns] [] w
           | _ \<Rightarrow> (Inl TypeError, w)))"

definition summarize_mean :: "val list \<Rightarrow> kwargs \<Rightarrow> 'a world_scheme \<Rightarrow> 'a res" where
  "summarize_mean args kw w =
     (case bind_params [''input''] args kw of
        Inl e \<Rightarrow> (Inl e, w)
      | Inr b \<Rightarrow>
          (case b ''input'' of
             None \<Rightarrow> (Inl TypeError, w)
           | Some input \<Rightarrow>
               (Inl (NotImplementedError
                  (''summarize_mean is not implemented for data of type ''
                     @ str_of_type w (type_of input))), w)))"

definition summarize_mean_DataFrame :: "'a env \<Rightarrow> val list \<Rightarrow> kwargs \<Rightarrow> 'a world_scheme \<Rightarrow> 'a res" where
  "summarize_mean_DataFrame lib args kw w =
     (case bind_params [''input''] args kw of
        Inl e \<Rightarrow> (Inl e, w)
      | Inr b \<Rightarrow>
          (case b ''input'' of
             None \<Rightarrow> (Inl TypeError, w)
           | Some input \<Rightarrow> lib ''mean'' [input] [] w))"

definition summarize_mean_GroupBy :: "'a env \<Rightarrow> val list \<Rightarrow> kwargs \<Rightarrow> 'a world_scheme \<Rightarrow> 'a res" where
  "summarize_mean_GroupBy lib args kw w =
     (case bind_params [''input''] args kw of
        Inl e \<Rightarrow> (Inl e, w)
      | Inr b \<Rightarrow>
          (case b ''input'' of
             None \<Rightarrow> (Inl TypeError, w)
           | Some input \<Rightarrow> lib ''mean'' [input] [] w))"

text \<open>
  Cell 11: \<open>my_verb_(input, x=1, y=2)\<close> (here \<open>my_verb_generic\<close>) evaluates
  \<open>NotImplemented(...)\<close>, a call of an object that is not callable, so it raises
  \<open>TypeError\<close>; \<open>my_verb_df\<close> returns \<open>input + [x, y]\<close>.
\<close>

definition my_verb_generic :: "val list \<Rightarrow> kwargs \<Rightarrow> 'a world_scheme \<Rightarrow> 'a res" where
  "my_verb_generic args kw w =
     (case bind_params [''input'', ''x'', ''y''] args kw of
        Inl e \<Rightarrow> (Inl e, w)
      | Inr b \<Rightarrow>
          (case b ''input'' of
             None \<Rightarrow> (Inl TypeError, w)
           | Some input \<Rightarrow> (Inl TypeError, w)))"

definition my_verb_df :: "'a env \<Rightarrow> val list \<Rightarrow> kwargs \<Rightarrow> 'a world_scheme \<Rightarrow> 'a res" where
  "my_verb_df lib args kw w =
     (case bind_params [''input'', ''x'', ''y''] args kw of
        Inl e \<Rightarrow> (Inl e, w)
      | Inr b \<Rightarrow>
          (case b ''input'' of
             None \<Rightarrow> (Inl TypeError, w)
           | Some input \<Rightarrow>
               (let x = (case b ''x'' of None \<Rightarrow> VInt 1 | Some v \<Rightarrow> v);
                    y = (case b ''y'' of None \<Rightarrow> VInt 2 | Some v \<Rightarrow> v) in
                add_list_display lib input [x, y] w)))"

text \<open>
  The built-in \<open>int.__rshift__\<close>: defined on two integers, \<open>NotImplemented\<close> for any other
  right operand.
\<close>

definition int_rshift :: "val list \<Rightarrow> kwargs \<Rightarrow> 'a world_scheme \<Rightarrow> 'a res" where
  "int_rshift args kw w =
     (case (args, kw) of
        ([VInt a, VInt b], []) \<Rightarrow>
          (if b < 0 then (Inl ValueError, w) else (Inr (VInt (a div 2 ^ nat b)), w))
      | ([VInt a, _], []) \<Rightarrow> (Inr VNotImplemented, w)
      | _ \<Rightarrow> (Inl TypeError, w))"

text \<open>
  The environment of function bodies: the functions above by name, every other name a
  function of the libraries \<open>lib\<close> that the notebook imports.
\<close>

definition notebook_fns :: "'a env \<Rightarrow> 'a env" where
  "notebook_fns lib f =
     (if f = ''append_col'' then append_col
      else if f = ''append_col_df'' then append_col_df lib
      else if f = ''append_col_df_list'' then append_col_df_list lib
      else if f = ''groupby'' then groupby
      else if f = ''groupby_DataFrame'' then groupby_DataFrame lib
      else if f = ''summarize_mean'' then summarize_mean
      else if f = ''summarize_mean_DataFrame'' then summarize_mean_DataFrame lib
      else if f = ''summarize_mean_GroupBy'' then summarize_mean_GroupBy lib
      else if f = ''my_verb_'' then my_verb_generic
      else if f = ''my_verb_df'' then my_verb_df lib
      else if f = ''int.__rshift__'' then int_rshift
      else lib f)"

subsection \<open>The state the notebook builds\<close>

text \<open>
  The classes the notebook meets before any of its cells runs: the built-in types, with
  \<open>int\<close> the only one that has \<open>__rshift__\<close>; \<open>PipeVerb\<close>; the classes of pandas that
  the notebook's tables and grouped tables are instances of, with their base classes, none
  of which defines \<open>__rshift__\<close>. Any other name is a plain class deriving from \<open>object\<close>.
\<close>

definition plain_class :: "cname list \<Rightarrow> pyclass" where
  "plain_class bases =
     \<lparr>ancestors = bases, builtin = False, rshift_attr = None, orig_rshift_attr = None,
      class_repr = None\<rparr>"

definition builtin_class :: "cname list \<Rightarrow> pymethod option \<Rightarrow> pyclass" where
  "builtin_class bases m =
     \<lparr>ancestors = bases, builtin = True, rshift_attr = m, orig_rshift_attr = None,
      class_repr = None\<rparr>"

definition pandas_classes :: "(cname \<times> cname list) list" where
  "pandas_classes =
     [(''pandas.core.base.StringMixin'', [''object'']),
      (''pandas.core.base.SelectionMixin'', [''object'']),
      (''pandas.core.base.PandasObject'', [''pandas.core.base.StringMixin'', ''object'']),
      (''pandas.core.generic.NDFrame'',
         [''pandas.core.base.PandasObject'', ''pandas.core.base.StringMixin'', ''object'']),
      (''pandas.core.frame.DataFrame'',
         [''pandas.core.generic.NDFrame'', ''pandas.core.base.PandasObject'',
          ''pandas.core.base.StringMixin'', ''object'']),
      (''pandas.core.groupby._GroupBy'',
         [''pandas.core.base.PandasObject'', ''pandas.core.base.StringMixin'',
          ''pandas.core.base.SelectionMixin'', ''object'']),
      (''pandas.core.groupby.GroupBy'',
         [''pandas.core.groupby._GroupBy'', ''pandas.core.base.PandasObject'',
          ''pandas.core.base.StringMixin'', ''pandas.core.base.SelectionMixin'', ''object'']),
      (''pandas.core.groupby.NDFrameGroupBy'',
         [''pandas.core.groupby.GroupBy'', ''pandas.core.groupby._GroupBy'',
          ''pandas.core.base.PandasObject'', ''pandas.core.base.StringMixin'',
          ''pandas.core.base.SelectionMixin'', ''object'']),
      (''pandas.core.groupby.DataFrameGroupBy'',
         [''pandas.core.groupby.NDFrameGroupBy'', ''pandas.core.groupby.GroupBy'',
          ''pandas.core.groupby._GroupBy'', ''pandas.core.base.PandasObject'',
          ''pandas.core.base.StringMixin'', ''pandas.core.base.SelectionMixin'',
          ''object''])]"

definition base_classes :: "cname \<Rightarrow> pyclass" where
  "base_classes c =
     (if c = ''object'' then builtin_class [] None
      else if c = ''int'' then
        builtin_class [''object''] (Some (UserFn ''int.__rshift__'' False))
      else if c = ''list'' \<or> c = ''str'' \<or> c = ''NoneType'' \<or> c = ''NotImplementedType'' then
        builtin_class [''object''] None
      else
        (case map_of pandas_classes c of
           Some bases \<Rightarrow> plain_class bases
         | None \<Rightarrow> plain_class [''object'']))"

text \<open>
  The notebook uses no abstract base class as a registration key, so no class has a
  virtual base to list, and the linearisation with abstract base classes is never asked
  for.
\<close>

definition no_virtual_bases :: "cname \<Rightarrow> cname list" where
  "no_virtual_bases c = []"

definition no_abc_mro :: "cname \<Rightarrow> cname list \<Rightarrow> exn + cname list" where
  "no_abc_mro c ts = Inl RuntimeError"

definition init_world :: world where
  "init_world =
     \<lparr>lists = (\<lambda>_. []), next_list = 0, classes = base_classes,
      dispatchers = (\<lambda>_. Map.empty), next_sd = 0,
      virtual_bases = no_virtual_bases, abc_mro = no_abc_mro\<rparr>"

text \<open>\<open>@verb.register(cls)\<close> above a function definition: the attribute \<open>register\<close> of the verb.\<close>

definition register_via ::
  "callable \<Rightarrow> cname \<Rightarrow> fname \<Rightarrow> 'a world_scheme \<Rightarrow> exn + 'a world_scheme" where
  "register_via verb cls func w =
     (case register_attr verb of
        None \<Rightarrow> Inl AttributeError
      | Some d \<Rightarrow> Inr (register d cls func w))"

text \<open>
  The definition cells 3, 5, 7 and 11 in order; the result binds the global names
  \<open>append_col\<close>, \<open>groupby\<close>, \<open>summarize_mean\<close>, \<open>my_verb_\<close> and \<open>my_verb\<close>.
\<close>

record globals =
  g_append_col :: callable
  g_groupby :: callable
  g_summarize_mean :: callable
  g_my_verb_us :: callable
  g_my_verb :: callable

definition then_exn :: "exn + 'b \<Rightarrow> ('b \<Rightarrow> exn + 'c) \<Rightarrow> exn + 'c" where
  "then_exn r k = (case r of Inl e \<Rightarrow> Inl e | Inr x \<Rightarrow> k x)"

definition run_make_pipesource :: "cname \<Rightarrow> 'a world_scheme \<Rightarrow> exn + 'a world_scheme" where
  "run_make_pipesource cls w =
     (case make_pipesource cls w of (Inl e, _) \<Rightarrow> Inl e | (Inr _, w') \<Rightarrow> Inr w')"

definition notebook_cells :: "'a world_scheme \<Rightarrow> exn + (globals \<times> 'a world_scheme)" where
  "notebook_cells w0 =
     (let (v_append_col, w1) = singledispatch_pipeverb ''append_col'' w0 in
      then_exn (register_via v_append_col ''pandas.core.frame.DataFrame'' ''append_col_df'' w1)
        (\<lambda>w2.
      then_exn (run_make_pipesource ''pandas.core.frame.DataFrame'' w2) (\<lambda>w3.
      then_exn (register_via v_append_col ''list'' ''append_col_df_list'' w3) (\<lambda>w4.
      let (v_groupby, w5) = singledispatch_pipeverb ''groupby'' w4 in
      then_exn (register_via v_groupby ''pandas.core.frame.DataFrame'' ''groupby_DataFrame'' w5)
        (\<lambda>w6.
      let (v_summarize_mean, w7) = singledispatch_pipeverb ''summarize_mean'' w6 in
      then_exn (register_via v_summarize_mean ''pandas.core.frame.DataFrame''
                  ''summarize_mean_DataFrame'' w7) (\<lambda>w8.
      then_exn (register_via v_summarize_mean ''pandas.core.groupby.GroupBy''
                  ''summarize_mean_GroupBy'' w8) (\<lambda>w9.
      let (v_my_verb_us, w10) = singledispatch ''my_verb_'' w9 in
      then_exn (register_via v_my_verb_us ''list'' ''my_verb_df'' w10) (\<lambda>w11.
      Inr (\<lparr>g_append_col = v_append_col, g_groupby = v_groupby,
            g_summarize_mean = v_summarize_mean, g_my_verb_us = v_my_verb_us,
            g_my_verb = pipeverb v_my_verb_us\<rparr>, w11)))))))))"

text \<open>
  The verbs and the state after these cells, from a start with no registry allocated.
  The cells that only evaluate expressions allocate lists, so the theorems below leave the
  list store arbitrary.
\<close>

definition nb_globals :: globals where
  "nb_globals =
     \<lparr>g_append_col = Verb (SD 0) (Some 0), g_groupby = Verb (SD 1) (Some 1),
      g_summarize_mean = Verb (SD 2) (Some 2), g_my_verb_us = SD 3,
      g_my_verb = Verb (SD 3) (Some 3)\<rparr>"

definition nb_dispatchers :: "nat \<Rightarrow> (cname \<rightharpoonup> fname)" where
  "nb_dispatchers =
     (\<lambda>_. Map.empty)
       (0 := [''object'' \<mapsto> ''append_col'',
              ''pandas.core.frame.DataFrame'' \<mapsto> ''append_col_df'',
              ''list'' \<mapsto> ''append_col_df_list''],
        1 := [''object'' \<mapsto> ''groupby'',
              ''pandas.core.frame.DataFrame'' \<mapsto> ''groupby_DataFrame''],
        2 := [''object'' \<mapsto> ''summarize_mean'',
              ''pandas.core.frame.DataFrame'' \<mapsto> ''summarize_mean_DataFrame'',
              ''pandas.core.groupby.GroupBy'' \<mapsto> ''summarize_mean_GroupBy''],
        3 := [''object'' \<mapsto> ''my_verb_'', ''list'' \<mapsto> ''my_verb_df''])"

definition nb_world :: "(nat \<Rightarrow> val list) \<Rightarrow> nat \<Rightarrow> world" where
  "nb_world ls n =
     \<lparr>lists = ls, next_list = n, classes = base_classes,
      dispatchers = nb_dispatchers, next_sd = 4,
      virtual_bases = no_virtual_bases, abc_mro = no_abc_mro\<rparr>"

subsection \<open>Pipelines and the conditions under which a value can start one\<close>

text \<open>
  The operator reaches \<open>PipeVerb.__rrshift__\<close> for \<open>v >> pv\<close> when the class of \<open>v\<close> has
  the closure of \<open>make_pipesource\<close> as its \<open>__rshift__\<close>, or when \<open>v\<close> is not itself a
  \<open>PipeVerb\<close> and its class has no \<open>__rshift__\<close> or one that answers \<open>NotImplemented\<close> to
  \<open>pv\<close> without changing the state (as \<open>int.__rshift__\<close> does).
\<close>

definition pipe_source :: "'a env \<Rightarrow> 'a world_scheme \<Rightarrow> val \<Rightarrow> val \<Rightarrow> bool" where
  "pipe_source \<Gamma> w v pv =
     (case lookup_rshift w (type_of v) of
        None \<Rightarrow> type_of v \<noteq> ''__main__.PipeVerb''
      | Some PipeOp \<Rightarrow> True
      | Some (UserFn g b) \<Rightarrow>
          type_of v \<noteq> ''__main__.PipeVerb'' \<and> \<Gamma> g [v, pv] [] w = (Inr VNotImplemented, w))"

text \<open>Sequencing two steps of an expression: an exception ends the evaluation.\<close>

definition then_res :: "'a res \<Rightarrow> (val \<Rightarrow> 'a world_scheme \<Rightarrow> 'a res) \<Rightarrow> 'a res" where
  "then_res r k = (case r of (Inl e, w) \<Rightarrow> (Inl e, w) | (Inr v, w) \<Rightarrow> k v w)"

text \<open>
  Cell 10, \<open>table >> groupby("b") >> summarize_mean()\<close>, for two verbs; the same two
  stages as nested calls \<open>summarize_mean(groupby(table, "b"))\<close> of two callables.
\<close>

definition pipeline2 ::
  "'a env \<Rightarrow> callable \<Rightarrow> callable \<Rightarrow> val \<Rightarrow> 'a world_scheme \<Rightarrow> 'a res" where
  "pipeline2 \<Gamma> v_groupby v_summarize_mean table w =
     then_res (pipe \<Gamma> table v_groupby [VStr ''b''] [] w)
       (\<lambda>grouped. pipe \<Gamma> grouped v_summarize_mean [] [])"

definition nested2 ::
  "'a env \<Rightarrow> callable \<Rightarrow> callable \<Rightarrow> val \<Rightarrow> 'a world_scheme \<Rightarrow> 'a res" where
  "nested2 \<Gamma> f_groupby f_summarize_mean table w =
     then_res (call \<Gamma> f_groupby [table, VStr ''b''] [] w)
       (\<lambda>grouped. call \<Gamma> f_summarize_mean [grouped] [])"

text \<open>
  Cell 5, \<open>[1, 2] >> append_col(**kw)\<close>: the list display allocates the input list, then
  the verb is called, then the operator applies.
\<close>

definition cell5 :: "'a env \<Rightarrow> callable \<Rightarrow> kwargs \<Rightarrow> 'a world_scheme \<Rightarrow> 'a res" where
  "cell5 \<Gamma> v_append_col kw w =
     (case new_list [VInt 1, VInt 2] w of
        (input, w1) \<Rightarrow> pipe \<Gamma> input v_append_col [] kw w1)"

subsection \<open>A concrete state for examples\<close>

text \<open>
  Examples need a class with an \<open>__rshift__\<close> of its own and library functions that
  return. \<open>Stream\<close> is such a class:
  \<^verbatim>\<open>
  class Stream:
      def __rshift__(self, other): return 0

  @append_col.register(Stream)
  @append_col.register(PipeVerb)
  def append_col_same(input, x = 1): return input
  \<close>
  and \<open>example_lib\<close> stands for pandas at these inputs only: where pandas computes a
  table, it returns an object of the class pandas would return.
\<close>

definition example_lib :: "'a env" where
  "example_lib f args kw w =
     (if f = ''Stream.__rshift__'' then (Inr (VInt 0), w)
      else if f = ''append_col_same'' then
        (case bind_params [''input'', ''x''] args kw of
           Inl e \<Rightarrow> (Inl e, w)
         | Inr b \<Rightarrow> (case b ''input'' of None \<Rightarrow> (Inl TypeError, w) | Some input \<Rightarrow> (Inr input, w)))
      else if f = ''groupby'' then
        (case args of
           [VObj c i, cols] \<Rightarrow> (Inr (VObj ''pandas.core.groupby.DataFrameGroupBy'' i), w)
         | _ \<Rightarrow> (Inl TypeError, w))
      else if f = ''mean'' then
        (case args of
           [VObj c i] \<Rightarrow> (Inr (VObj ''pandas.core.frame.DataFrame'' (Suc i)), w)
         | _ \<Rightarrow> (Inl TypeError, w))
      else (Inl (OtherError f), w))"

definition no_lists :: "nat \<Rightarrow> val list" where
  "no_lists a = []"

definition Stream_class :: pyclass where
  "Stream_class =
     (plain_class [''object''])\<lparr>rshift_attr := Some (UserFn ''Stream.__rshift__'' False)\<rparr>"

definition example_world :: world where
  "example_world =
     register 0 ''__main__.PipeVerb'' ''append_col_same''
       (register 0 ''__main__.Stream'' ''append_col_same''
          ((nb_world no_lists 0)\<lparr>classes := base_classes(''__main__.Stream'' := Stream_class)\<rparr>))"

definition patched_world :: world where
  "patched_world = snd (make_pipesource ''__main__.Stream'' example_world)"

subsection \<open>Inputs without a specialization, arguments that fit a signature\<close>



subsection \<open>A class and a subclass that are both made pipe sources\<close>

text \<open>
  \<^verbatim>\<open>
  class A:
      def __rshift__(self, other): return 7

  class B(A):
      def __rshift__(self, other): return super().__rshift__(other)

  make_pipesource(A)
  make_pipesource(B)
  \<close>
  The functions call back into the operator of the class table, so their environment is
  defined by recursion on the number \<open>k\<close> of nested calls that Python's recursion limit
  still allows: with none left a call raises \<open>RecursionError\<close>. For an instance of \<open>B\<close>,
  \<open>super().__rshift__\<close> is the \<open>__rshift__\<close> that the MRO of \<open>A\<close> gives.
\<close>

primrec hier_fns :: "nat \<Rightarrow> 'a env" where
  "hier_fns 0 = (\<lambda>f args kw w. (Inl RecursionError, w))"
| "hier_fns (Suc k) = (\<lambda>f args kw w.
     if f = ''A.__rshift__'' then
       (case args of
          [self, other] \<Rightarrow> (Inr (VInt 7), w)
        | _ \<Rightarrow> (Inl TypeError, w))
     else if f = ''B.__rshift__'' then
       (case args of
          [self, other] \<Rightarrow>
            (case lookup_rshift w ''__main__.A'' of
               None \<Rightarrow> (Inl AttributeError, w)
             | Some m \<Rightarrow> call_method (hier_fns k) m self other w)
        | _ \<Rightarrow> (Inl TypeError, w))
     else (Inl (OtherError f), w))"

definition hier_classes :: "cname \<Rightarrow> pyclass" where
  "hier_classes =
     base_classes
       (''__main__.A'' :=
          (plain_class [''object''])\<lparr>rshift_attr := Some (UserFn ''A.__rshift__'' False)\<rparr>,
        ''__main__.B'' :=
          (plain_class [''__main__.A'', ''object''])
            \<lparr>rshift_attr := Some (UserFn ''B.__rshift__'' False)\<rparr>)"

definition hier_world :: world where
  "hier_world =
     snd (make_pipesource ''__main__.A'' ((nb_world no_lists 0)\<lparr>classes := hier_classes\<rparr>))"

definition hier_patched :: world where
  "hier_patched = snd (make_pipesource ''__main__.B'' hier_world)"

section \<open>Properties\<close>

subsection \<open>Evaluation rules and shared lemmas\<close>

lemmas model_defs = pipe_def rshift_op_def binop_with_def reflected_def call_method_def
  PipeVerb_rrshift_def PipeVerb_init_def pipeverb_def dispatch_def find_impl_def
  compose_mro_def related_def mro_def lookup_rshift_def
  lookup_orig_rshift_def make_pipesource_def register_def bind_params_def then_res_def
  new_list_def add_list_display_def str_of_type_def pipe_source_def

lemmas nb_defs = nb_world_def nb_globals_def nb_dispatchers_def base_classes_def
  plain_class_def builtin_class_def pandas_classes_def notebook_fns_def example_lib_def
  example_world_def patched_world_def Stream_class_def no_lists_def no_virtual_bases_def
  no_abc_mro_def

text \<open>The definition cells, run from the initial state, give the verbs and the state used below.\<close>

lemma notebook_cells_init:
  "notebook_cells init_world = Inr (nb_globals, nb_world (\<lambda>_. []) 0)"
  by (auto simp add: notebook_cells_def init_world_def singledispatch_pipeverb_def
      singledispatch_def register_via_def pipeverb_def register_def make_pipesource_def
      lookup_rshift_def mro_def then_exn_def run_make_pipesource_def base_classes_def
      plain_class_def builtin_class_def pandas_classes_def nb_globals_def nb_world_def
      nb_dispatchers_def fun_eq_iff numeral_3_eq_3 numeral_2_eq_2)

lemma nb_world_no_related [simp]: "related (nb_world ls n) d cls = []"
  by (simp add: related_def nb_world_def no_virtual_bases_def)

lemma lookup_rshift_self:
  "rshift_attr (classes w c) = Some m \<Longrightarrow> lookup_rshift w c = Some m"
  by (simp add: lookup_rshift_def mro_def)

lemma lookup_orig_self:
  "orig_rshift_attr (classes w c) = Some m \<Longrightarrow> lookup_orig_rshift w c = Some m"
  by (simp add: lookup_orig_rshift_def mro_def)

text \<open>A verb called with keywords other than \<open>self\<close> and \<open>func\<close> returns the wrapper and runs nothing.\<close>

lemma call_pipeverb:
  "''self'' \<notin> fst ` set kw \<Longrightarrow> ''func'' \<notin> fst ` set kw \<Longrightarrow>
   call \<Gamma> (pipeverb f) args kw w = (Inr (VPipeVerb f args kw), w)"
  by (simp add: pipeverb_def PipeVerb_init_def)

lemma pipeverb_register:
  "register_attr f = Some d \<Longrightarrow> register_attr (pipeverb f) = Some d"
  by (simp add: pipeverb_def)

text \<open>From a pipe source, the operator returns what \<open>__rrshift__\<close> returns.\<close>

lemma rshift_op_source:
  assumes "pipe_source \<Gamma> w v (VPipeVerb f args kw)"
    and "PipeVerb_rrshift \<Gamma> f args kw v w = (r, w')" and "r \<noteq> Inr VNotImplemented"
  shows "rshift_op \<Gamma> v (VPipeVerb f args kw) w = (r, w')"
proof (cases "lookup_rshift w (type_of v)")
  case None
  with assms show ?thesis
    by (cases v) (auto simp: pipe_source_def rshift_op_def binop_with_def reflected_def)
next
  case (Some m)
  show ?thesis
  proof (cases m)
    case PipeOp
    with Some assms show ?thesis
      by (simp add: rshift_op_def binop_with_def call_method_def)
  next
    case (UserFn g b)
    with Some assms show ?thesis
      by (cases v)
        (auto simp: pipe_source_def rshift_op_def binop_with_def reflected_def call_method_def)
  qed
qed









subsection \<open>The wrapper\<close>


subsection \<open>\<open>make_pipesource\<close>\<close>

text \<open>
  C3. A second \<open>make_pipesource(cls)\<close> ends as the first did and leaves the state the
  first produced, so \<open>>>\<close> gives the same result for every pair of operands after one call
  and after two.
\<close>

theorem make_pipesource_idempotent:
  "make_pipesource cls w = (r, w') \<Longrightarrow>
   make_pipesource cls w' = (r, w') \<and>
   rshift_op \<Gamma> v rhs (snd (make_pipesource cls w')) = rshift_op \<Gamma> v rhs w'"
  by (auto simp: make_pipesource_def lookup_rshift_def mro_def split: option.splits if_splits)

theorem make_pipesource_idempotent_witness:
  "make_pipesource ''__main__.Stream'' example_world = (Inr VNone, patched_world) \<and>
   rshift_attr (classes patched_world ''__main__.Stream'') = Some PipeOp \<and>
   make_pipesource ''__main__.Stream'' patched_world = (Inr VNone, patched_world) \<and>
   rshift_op (notebook_fns example_lib) (VObj ''__main__.Stream'' 0) (VInt 3)
     (snd (make_pipesource ''__main__.Stream'' patched_world))
   = rshift_op (notebook_fns example_lib) (VObj ''__main__.Stream'' 0) (VInt 3) patched_world"
proof -
  have h: "make_pipesource ''__main__.Stream'' example_world = (Inr VNone, patched_world)"
    by (simp add: model_defs nb_defs)
  have a: "rshift_attr (classes patched_world ''__main__.Stream'') = Some PipeOp"
    by (simp add: model_defs nb_defs)
  show ?thesis
    using h a make_pipesource_idempotent [OF h, of "notebook_fns example_lib"
        "VObj ''__main__.Stream'' 0" "VInt 3"]
    by simp
qed

text \<open>
  With both classes patched, the method of \<open>B\<close> never returns: whatever number of nested
  calls is allowed, it ends in \<open>RecursionError\<close>.
\<close>

lemma hier_patched_loops:
  "hier_fns k ''B.__rshift__'' [VObj ''__main__.B'' 0, VInt 3] [] hier_patched
   = (Inl RecursionError, hier_patched)"
proof (induction k)
  case 0
  show ?case by simp
next
  case (Suc k)
  have a: "lookup_rshift hier_patched ''__main__.A'' = Some PipeOp"
    by (simp add: hier_patched_def hier_world_def hier_classes_def model_defs nb_defs)
  have b: "lookup_orig_rshift hier_patched ''__main__.B''
           = Some (UserFn ''B.__rshift__'' False)"
    by (simp add: hier_patched_def hier_world_def hier_classes_def model_defs nb_defs)
  show ?case
    using Suc by (simp add: a b call_method_def)
qed

text \<open>
  C4 at the classes \<open>A\<close> and \<open>B\<close> above, with \<open>A\<close> already a pipe source. Before
  \<open>make_pipesource(B)\<close>, \<open>B() >> 3\<close> is 7: the method of \<open>B\<close> defers to the operator of
  \<open>A\<close>, which finds the original of \<open>A\<close> as \<open>self.__orig_rshift__\<close>. After it, the same
  lookup on the instance finds the original of \<open>B\<close>, so the operator of \<open>A\<close> calls the
  method of \<open>B\<close> again, and \<open>B() >> 3\<close> raises \<open>RecursionError\<close> whatever the recursion
  limit: the result of the operation before the patch is not preserved.
\<close>

theorem subclass_patch_changes_original_result:
  "lookup_rshift hier_world ''__main__.B'' = Some (UserFn ''B.__rshift__'' False) \<and>
   rshift_op (hier_fns (Suc (Suc k))) (VObj ''__main__.B'' 0) (VInt 3) hier_world
   = (Inr (VInt 7), hier_world) \<and>
   make_pipesource ''__main__.B'' hier_world = (Inr VNone, hier_patched) \<and>
   rshift_op (hier_fns k) (VObj ''__main__.B'' 0) (VInt 3) hier_patched
   = (Inl RecursionError, hier_patched)"
proof -
  have 1: "lookup_rshift hier_world ''__main__.B'' = Some (UserFn ''B.__rshift__'' False)"
    by (simp add: hier_world_def hier_classes_def model_defs nb_defs)
  have a: "lookup_rshift hier_world ''__main__.A'' = Some PipeOp"
    by (simp add: hier_world_def hier_classes_def model_defs nb_defs)
  have o: "lookup_orig_rshift hier_world ''__main__.B'' = Some (UserFn ''A.__rshift__'' False)"
    by (simp add: hier_world_def hier_classes_def model_defs nb_defs)
  have 2: "rshift_op (hier_fns (Suc (Suc k))) (VObj ''__main__.B'' 0) (VInt 3) hier_world
           = (Inr (VInt 7), hier_world)"
    by (simp add: rshift_op_def binop_with_def call_method_def 1 a o)
  have 3: "make_pipesource ''__main__.B'' hier_world = (Inr VNone, hier_patched)"
    by (simp add: hier_patched_def hier_world_def hier_classes_def model_defs nb_defs)
  have p: "lookup_rshift hier_patched ''__main__.B'' = Some PipeOp"
    by (simp add: hier_patched_def hier_world_def hier_classes_def model_defs nb_defs)
  have q: "lookup_orig_rshift hier_patched ''__main__.B''
           = Some (UserFn ''B.__rshift__'' False)"
    by (simp add: hier_patched_def hier_world_def hier_classes_def model_defs nb_defs)
  have 4: "rshift_op (hier_fns k) (VObj ''__main__.B'' 0) (VInt 3) hier_patched
           = (Inl RecursionError, hier_patched)"
    by (simp add: rshift_op_def binop_with_def call_method_def p q hier_patched_loops)
  from 1 2 3 4 show ?thesis by simp
qed

text \<open>
  C10. A class without any \<open>__rshift__\<close> is left as it is by \<open>make_pipesource\<close>: the
  state does not change at all. For an instance \<open>v\<close> of such a class other than \<open>PipeVerb\<close>
  itself, \<open>v >> wrapper\<close> is the wrapper's \<open>__rrshift__\<close> on \<open>v\<close>, that is the wrapped
  function applied to \<open>v\<close>; a result \<open>NotImplemented\<close> of that function becomes
  \<open>TypeError\<close>.
\<close>

theorem unpatched_class_pipes_by_reflection:
  assumes "lookup_rshift w cls = None"
  shows "make_pipesource cls w = (Inr VNone, w) \<and>
    (type_of v = cls \<and> cls \<noteq> ''__main__.PipeVerb'' \<longrightarrow>
       rshift_op \<Gamma> v (VPipeVerb f args kw) w =
         (case PipeVerb_rrshift \<Gamma> f args kw v w of
            (r, w') \<Rightarrow> if r = Inr VNotImplemented then (Inl TypeError, w') else (r, w')))"
  using assms
  by (cases v) (auto simp: make_pipesource_def rshift_op_def binop_with_def reflected_def)

theorem unpatched_class_pipes_by_reflection_witness:
  "lookup_rshift (nb_world no_lists 1) ''list'' = None \<and>
   make_pipesource ''list'' (nb_world no_lists 1) = (Inr VNone, nb_world no_lists 1) \<and>
   rshift_op (notebook_fns example_lib) (VList 0) (VPipeVerb (SD 0) [] []) (nb_world no_lists 1)
   = PipeVerb_rrshift (notebook_fns example_lib) (SD 0) [] [] (VList 0) (nb_world no_lists 1) \<and>
   fst (rshift_op (notebook_fns example_lib) (VList 0) (VPipeVerb (SD 0) [] [])
          (nb_world no_lists 1)) = Inr (VList 2)"
proof -
  have h: "lookup_rshift (nb_world no_lists 1) ''list'' = None"
    by (simp add: model_defs nb_defs)
  have v: "PipeVerb_rrshift (notebook_fns example_lib) (SD 0) [] [] (VList 0)
             (nb_world no_lists 1)
           = (Inr (VList 2),
              nb_world (no_lists(1 := [VInt 1], 2 := [VInt 1])) 3)"
    by (simp add: model_defs nb_defs append_col_df_list_def Let_def numeral_2_eq_2)
  show ?thesis
    using h v unpatched_class_pipes_by_reflection [OF h, of "VList 0"
        "notebook_fns example_lib" "SD 0" "[]" "[]"]
    by simp
qed

text \<open>
  The class \<open>PipeVerb\<close> has no \<open>__rshift__\<close> either, but a wrapper on the left of \<open>>>\<close>
  is not piped: both operands have the same type, Python does not try the reflected
  operation, and the expression raises \<open>TypeError\<close> although the wrapped function accepts
  the value.
\<close>

theorem wrapper_as_input_counterexample:
  "lookup_rshift example_world ''__main__.PipeVerb'' = None \<and>
   type_of (VPipeVerb (SD 2) [] []) = ''__main__.PipeVerb'' \<and>
   PipeVerb_rrshift (notebook_fns example_lib) (SD 0) [] [] (VPipeVerb (SD 2) [] [])
     example_world = (Inr (VPipeVerb (SD 2) [] []), example_world) \<and>
   rshift_op (notebook_fns example_lib) (VPipeVerb (SD 2) [] []) (VPipeVerb (SD 0) [] [])
     example_world = (Inl TypeError, example_world)"
  by (simp add: model_defs nb_defs)

subsection \<open>Verbs\<close>

text \<open>
  C7 at a keyword that \<open>PipeVerb.__init__\<close> also uses as a parameter name: the call
  \<open>verb(func=1)\<close> of any verb made by \<open>pipeverb\<close> raises \<open>TypeError\<close> instead of returning
  a wrapper that holds the keyword.
\<close>

theorem pipeverb_keyword_collision:
  "call \<Gamma> (pipeverb f) [] [(''func'', VInt 1)] w = (Inl TypeError, w) \<and>
   call \<Gamma> (pipeverb f) [] [(''self'', VInt 1)] w = (Inl TypeError, w)"
  by (simp add: pipeverb_def PipeVerb_init_def)




subsection \<open>Dispatch\<close>




subsection \<open>Inputs without a specialization\<close>








subsection \<open>Pipelines of the notebook\<close>

text \<open>
  C8. For two verbs made by \<open>pipeverb\<close> from \<open>f1\<close> and \<open>f2\<close>, the chain
  \<open>table >> groupby("b") >> summarize_mean()\<close> is the nested call
  \<open>f2(f1(table, "b"))\<close> of the wrapped functions, stage by stage from left to right,
  with the same value or exception and the same state, when the table and the result of the
  first stage can start a pipeline and no stage returns \<open>NotImplemented\<close>.
\<close>

theorem pipeline_is_nested_call_of_wrapped:
  assumes s1: "pipe_source \<Gamma> w table (VPipeVerb f1 [VStr ''b''] [])"
    and r1: "call \<Gamma> f1 [table, VStr ''b''] [] w = (r, w1)"
    and n1: "r \<noteq> Inr VNotImplemented"
    and s2: "\<And>g. r = Inr g \<Longrightarrow> pipe_source \<Gamma> w1 g (VPipeVerb f2 [] []) \<and>
                fst (call \<Gamma> f2 [g] [] w1) \<noteq> Inr VNotImplemented"
  shows "pipeline2 \<Gamma> (pipeverb f1) (pipeverb f2) table w = nested2 \<Gamma> f1 f2 table w"
proof -
  have p1: "pipe \<Gamma> table (pipeverb f1) [VStr ''b''] [] w = (r, w1)"
    using rshift_op_source [OF s1, of r w1] r1 n1
    by (simp add: pipe_def call_pipeverb PipeVerb_rrshift_def)
  show ?thesis
  proof (cases r)
    case (Inl e)
    with p1 r1 show ?thesis by (simp add: pipeline2_def nested2_def then_res_def)
  next
    case (Inr g)
    from s2 [OF Inr] have a: "pipe_source \<Gamma> w1 g (VPipeVerb f2 [] [])"
      and b: "fst (call \<Gamma> f2 [g] [] w1) \<noteq> Inr VNotImplemented" by auto
    have "pipe \<Gamma> g (pipeverb f2) [] [] w1 = call \<Gamma> f2 [g] [] w1"
      using rshift_op_source [OF a, of "fst (call \<Gamma> f2 [g] [] w1)"
          "snd (call \<Gamma> f2 [g] [] w1)"] b
      by (simp add: pipe_def call_pipeverb PipeVerb_rrshift_def)
    with p1 r1 Inr show ?thesis by (simp add: pipeline2_def nested2_def then_res_def)
  qed
qed

theorem pipeline_is_nested_call_of_wrapped_witness:
  "pipe_source (notebook_fns example_lib) (nb_world no_lists 0)
     (VObj ''pandas.core.frame.DataFrame'' 0) (VPipeVerb (SD 1) [VStr ''b''] []) \<and>
   call (notebook_fns example_lib) (SD 1) [VObj ''pandas.core.frame.DataFrame'' 0, VStr ''b'']
     [] (nb_world no_lists 0)
   = (Inr (VObj ''pandas.core.groupby.DataFrameGroupBy'' 0), nb_world no_lists 0) \<and>
   pipeline2 (notebook_fns example_lib) (pipeverb (SD 1)) (pipeverb (SD 2))
     (VObj ''pandas.core.frame.DataFrame'' 0) (nb_world no_lists 0)
   = nested2 (notebook_fns example_lib) (SD 1) (SD 2)
       (VObj ''pandas.core.frame.DataFrame'' 0) (nb_world no_lists 0) \<and>
   nested2 (notebook_fns example_lib) (SD 1) (SD 2)
       (VObj ''pandas.core.frame.DataFrame'' 0) (nb_world no_lists 0)
   = (Inr (VObj ''pandas.core.frame.DataFrame'' 1), nb_world no_lists 0)"
proof -
  let ?\<Gamma> = "notebook_fns example_lib :: unit env"
  let ?w = "nb_world no_lists 0"
  let ?df = "VObj ''pandas.core.frame.DataFrame'' 0"
  let ?gb = "VObj ''pandas.core.groupby.DataFrameGroupBy'' 0"
  have h1: "pipe_source ?\<Gamma> ?w ?df (VPipeVerb (SD 1) [VStr ''b''] [])"
    by (simp add: model_defs nb_defs)
  have h2: "call ?\<Gamma> (SD 1) [?df, VStr ''b''] [] ?w = (Inr ?gb, ?w)"
    by (simp add: model_defs nb_defs groupby_DataFrame_def)
  have h3: "Inr ?gb \<noteq> (Inr VNotImplemented :: exn + val)" by simp
  have h4: "pipe_source ?\<Gamma> ?w g (VPipeVerb (SD 2) [] []) \<and>
            fst (call ?\<Gamma> (SD 2) [g] [] ?w) \<noteq> Inr VNotImplemented"
    if "(Inr ?gb :: exn + val) = Inr g" for g
  proof -
    from that have g: "g = ?gb" by simp
    show ?thesis
      unfolding g by (simp add: model_defs nb_defs summarize_mean_GroupBy_def)
  qed
  have v: "nested2 ?\<Gamma> (SD 1) (SD 2) ?df ?w
           = (Inr (VObj ''pandas.core.frame.DataFrame'' 1), ?w)"
    by (simp add: nested2_def model_defs nb_defs groupby_DataFrame_def
        summarize_mean_GroupBy_def)
  show ?thesis
    using h1 h2 v pipeline_is_nested_call_of_wrapped [OF h1 h2 h3 h4]
    by simp
qed

text \<open>
  Calling the verbs themselves as \<open>summarize_mean(groupby(table, "b"))\<close> runs neither
  stage: each call returns a wrapper, while the chain returns the aggregated table.
\<close>

theorem nested_verb_calls_counterexample:
  "nested2 (notebook_fns example_lib) (g_groupby nb_globals) (g_summarize_mean nb_globals)
     (VObj ''pandas.core.frame.DataFrame'' 0) (nb_world no_lists 0)
   = (Inr (VPipeVerb (SD 2)
             [VPipeVerb (SD 1) [VObj ''pandas.core.frame.DataFrame'' 0, VStr ''b''] []] []),
      nb_world no_lists 0) \<and>
   pipeline2 (notebook_fns example_lib) (g_groupby nb_globals) (g_summarize_mean nb_globals)
     (VObj ''pandas.core.frame.DataFrame'' 0) (nb_world no_lists 0)
   = (Inr (VObj ''pandas.core.frame.DataFrame'' 1), nb_world no_lists 0)"
  by (simp add: nested2_def pipeline2_def model_defs nb_defs groupby_DataFrame_def
      summarize_mean_GroupBy_def)

text \<open>
  C9. In the state of the notebook with any list store, \<open>[1, 2] >> append_col()\<close>
  returns a new list \<open>[1, 2, 1]\<close> and \<open>[1, 2] >> append_col(x=5)\<close> a new list
  \<open>[1, 2, 5]\<close>. The final store holds the input list \<open>[1, 2]\<close> at its address \<open>n\<close>
  unchanged, the list display \<open>[x]\<close> at \<open>n + 1\<close> and the result at \<open>n + 2\<close>; no older
  list and nothing else in the state is changed.
\<close>

theorem append_col_list_example:
  "cell5 (notebook_fns lib) (g_append_col nb_globals) [] (nb_world ls n)
   = (Inr (VList (n + 2)),
      nb_world (ls(n := [VInt 1, VInt 2], n + 1 := [VInt 1],
                   n + 2 := [VInt 1, VInt 2, VInt 1])) (n + 3)) \<and>
   cell5 (notebook_fns lib) (g_append_col nb_globals) [(''x'', VInt 5)] (nb_world ls n)
   = (Inr (VList (n + 2)),
      nb_world (ls(n := [VInt 1, VInt 2], n + 1 := [VInt 5],
                   n + 2 := [VInt 1, VInt 2, VInt 5])) (n + 3))"
  by (simp add: cell5_def model_defs nb_defs append_col_df_list_def Let_def)

end
